theory Spec2Isabelle
  imports Main "HOL-Library.Sublist"
begin

section \<open>insta.go: the service-name convention\<close>

text \<open>
  Go's \<^verbatim>\<open>strings.HasSuffix(s, suffix)\<close> is
  \<^verbatim>\<open>len(s) >= len(suffix) && s[len(s)-len(suffix):] == suffix\<close>; strings are byte
  sequences, as \<^typ>\<open>string\<close> is.
\<close>

definition HasSuffix :: "string \<Rightarrow> string \<Rightarrow> bool" where
  "HasSuffix s sfx =
     (length sfx \<le> length s \<and> drop (length s - length sfx) s = sfx)"

text \<open>\<^verbatim>\<open>var nonServiceSuffix = []string{"-data", "-init", "-server"}\<close>\<close>

definition nonServiceSuffix :: "string list" where
  "nonServiceSuffix = [''-data'', ''-init'', ''-server'']"

text \<open>
  The inner loop of \<^verbatim>\<open>printServices\<close>: the flag starts \<^verbatim>\<open>false\<close>; the first suffix
  that matches sets it and breaks out of the loop.
\<close>

fun suffixLoop :: "string \<Rightarrow> string list \<Rightarrow> bool \<Rightarrow> bool" where
  "suffixLoop serviceName [] flag = flag"
| "suffixLoop serviceName (sfx # rest) flag =
     (if HasSuffix serviceName sfx then True else suffixLoop serviceName rest flag)"

definition hasNonServiceSuffix :: "string \<Rightarrow> bool" where
  "hasNonServiceSuffix serviceName = suffixLoop serviceName nonServiceSuffix False"

text \<open>
  \<^verbatim>\<open>types.ServiceConfig\<close>: the program reads its \<^verbatim>\<open>Name\<close> only; the rest of the
  definition (image, command, environment, ...) is carried opaquely.
\<close>

record ServiceConfig =
  ServiceConfig_Name :: string
  ServiceConfig_Image :: string

text \<open>
  \<^verbatim>\<open>printServices(cCtx, services)\<close>. Of the CLI context only \<^verbatim>\<open>NArg()\<close> is read.
  \<^verbatim>\<open>types.Services\<close> is ranged over; the list is the sequence of values in the order
  the range yields them. The result is the sequence of lines written by
  \<^verbatim>\<open>fmt.Println(serviceConfig.Name)\<close>.
\<close>

fun printLoop :: "ServiceConfig list \<Rightarrow> string list" where
  "printLoop [] = []"
| "printLoop (serviceConfig # rest) =
     (if hasNonServiceSuffix (ServiceConfig_Name serviceConfig)
      then ServiceConfig_Name serviceConfig # printLoop rest
      else printLoop rest)"

definition printServices :: "nat \<Rightarrow> ServiceConfig list \<Rightarrow> string list" where
  "printServices NArg services = (if NArg > 0 then [] else printLoop services)"


section \<open>insta.go: the data handed to the external libraries\<close>

text \<open>
  A Go \<^verbatim>\<open>error\<close> value is identified by its message; \<^verbatim>\<open>nil\<close> is \<open>None\<close>.
  Nil and empty slices are both the empty list (the program only passes them on).
\<close>

type_synonym error = string

text \<open>
  \<^verbatim>\<open>types.Project\<close>: the program reads \<^verbatim>\<open>Name\<close> and hands the whole value to the
  backend. \<^verbatim>\<open>Services\<close> holds the declared service definitions.
\<close>

record Project =
  Project_Name :: string
  Project_Services :: "ServiceConfig list"

text \<open>The option structs of \<^verbatim>\<open>api\<close>, with the fields the program sets; every other
  field has Go's zero value in each request and is left out.\<close>

record StartOptions =
  StartOptions_Services :: "string list"

record UpOptions =
  UpOptions_Start :: StartOptions

record DownOptions =
  DownOptions_Services :: "string list"

record RunOptions =
  RunOptions_Service :: string
  RunOptions_Command :: "string list"
  RunOptions_WorkingDir :: string
  RunOptions_Tty :: bool
  RunOptions_Environment :: "string list"

text \<open>
  \<^verbatim>\<open>api.Service\<close> is an interface; the program calls three of its methods. An
  implementation keeps its state (containers, networks) outside the process: \<open>'s\<close>.
  \<^verbatim>\<open>Up\<close> receives the pointer \<^verbatim>\<open>p\<close>, so it can write to the Project: it gives back
  the Project it leaves behind. \<^verbatim>\<open>Down\<close> and \<^verbatim>\<open>Exec\<close> receive the string
  \<^verbatim>\<open>p.Name\<close> by value.
\<close>

record 's Service =
  Up :: "Project \<Rightarrow> UpOptions \<Rightarrow> 's \<Rightarrow> error option \<times> Project \<times> 's"
  Down :: "string \<Rightarrow> DownOptions \<Rightarrow> 's \<Rightarrow> error option \<times> 's"
  Exec :: "string \<Rightarrow> RunOptions \<Rightarrow> 's \<Rightarrow> int \<times> error option \<times> 's"


section \<open>insta.go: effects\<close>

text \<open>
  What the process does, in order: lines printed or logged (with their operands, before
  formatting) and requests sent to the backend.
\<close>

datatype operand = Str string | Strs "string list" | Num int | Err "error option"

datatype event =
    log_Println "operand list"
  | log_Fatalln "operand list"
  | log_Fatal "operand list"
  | fmt_Println "operand list"
  | srv_Up Project UpOptions
  | srv_Down string DownOptions
  | srv_Exec string RunOptions

text \<open>
  The state a function runs in: the backend's state, the Project that the pointer
  \<^verbatim>\<open>p\<close> refers to, and the events so far.
\<close>

record 's world =
  backend :: 's
  project :: Project
  trace :: "event list"

text \<open>A call returns to its caller, or the process ends inside it: \<^verbatim>\<open>log.Fatalln\<close>
  and \<^verbatim>\<open>log.Fatal\<close> print and call \<^verbatim>\<open>os.Exit(1)\<close>.\<close>

datatype 'a outcome = Return 'a | Exit nat

definition emit :: "event \<Rightarrow> 's world \<Rightarrow> 's world" where
  "emit e w = w\<lparr>trace := trace w @ [e]\<rparr>"

definition andThen ::
  "'a outcome \<times> 's world \<Rightarrow> ('a \<Rightarrow> 's world \<Rightarrow> 'b outcome \<times> 's world) \<Rightarrow>
   'b outcome \<times> 's world" where
  "andThen m f = (case m of (Exit c, w) \<Rightarrow> (Exit c, w) | (Return x, w) \<Rightarrow> f x w)"

fun isRequest :: "event \<Rightarrow> bool" where
  "isRequest (srv_Up p opts) = True"
| "isRequest (srv_Down n opts) = True"
| "isRequest (srv_Exec n opts) = True"
| "isRequest e = False"

definition requests :: "event list \<Rightarrow> event list" where
  "requests tr = filter isRequest tr"

fun isStart :: "event \<Rightarrow> bool" where
  "isStart (srv_Up p opts) = True"
| "isStart e = False"

definition startRequests :: "event list \<Rightarrow> event list" where
  "startRequests tr = filter isStart tr"


section \<open>insta.go: the lifecycle operations\<close>

definition runServices ::
  "'s Service \<Rightarrow> string list \<Rightarrow> 's world \<Rightarrow> error option outcome \<times> 's world" where
  "runServices srv services w =
     (let w1 = emit (log_Println [Str ''Attempting to being services up:'', Strs services]) w;
          startOptions = \<lparr>StartOptions_Services = services\<rparr>;
          upOptions = \<lparr>UpOptions_Start = startOptions\<rparr>;
          w2 = emit (srv_Up (project w1) upOptions) w1;
          (err, p', b') = Up srv (project w2) upOptions (backend w2);
          w3 = w2\<lparr>backend := b', project := p'\<rparr>
      in if err \<noteq> None
         then (Exit 1, emit (log_Fatalln [Str ''Failed to bring services up:'', Err err]) w3)
         else (Return err, w3))"

definition downServices ::
  "'s Service \<Rightarrow> string list \<Rightarrow> 's world \<Rightarrow> error option outcome \<times> 's world" where
  "downServices srv services w =
     (let w1 = emit (log_Println [Str ''Attempting to being services down:'', Strs services]) w;
          downOptions = \<lparr>DownOptions_Services = services\<rparr>;
          w2 = emit (srv_Down (Project_Name (project w1)) downOptions) w1;
          (err, b') = Down srv (Project_Name (project w2)) downOptions (backend w2);
          w3 = w2\<lparr>backend := b'\<rparr>
      in if err \<noteq> None
         then (Exit 1, emit (log_Fatalln [Str ''Failed to bring services down:'', Err err]) w3)
         else (Return err, w3))"

definition connectToService ::
  "'s Service \<Rightarrow> string \<Rightarrow> string \<Rightarrow> 's world \<Rightarrow> unit outcome \<times> 's world" where
  "connectToService srv service cmd w =
     (let runOptions = \<lparr>RunOptions_Service = service, RunOptions_Command = [cmd],
            RunOptions_WorkingDir = ''/bin'', RunOptions_Tty = True,
            RunOptions_Environment = []\<rparr>;
          w1 = emit (srv_Exec (Project_Name (project w)) runOptions) w;
          (result, err, b') = Exec srv (Project_Name (project w1)) runOptions (backend w1);
          w2 = w1\<lparr>backend := b'\<rparr>
      in if err \<noteq> None
         then (Exit 1, emit (log_Fatalln [Str ''Failed to connect to service:'', Str service,
                 Str ''. Error:'', Err err]) w2)
         else (Return (), emit (log_Println [Str ''Command result:'', Num result,
                 Str '' and err:'', Err err]) w2))"


section \<open>insta.go: loading the Project\<close>

record ConfigFile =
  ConfigFile_Filename :: string
  ConfigFile_Content :: string

record ConfigDetails =
  ConfigDetails_WorkingDir :: string
  ConfigDetails_ConfigFiles :: "ConfigFile list"
  ConfigDetails_Environment :: "(string \<times> string) list"

text \<open>\<^verbatim>\<open>loader.Options\<close>, with what \<^verbatim>\<open>SetProjectName(name, imperativelySet)\<close> stores.\<close>

record Options =
  Options_projectName :: string
  Options_projectNameImperativelySet :: bool

definition SetProjectName :: "string \<Rightarrow> bool \<Rightarrow> Options \<Rightarrow> Options" where
  "SetProjectName name imperativelySet options =
     options\<lparr>Options_projectName := name,
       Options_projectNameImperativelySet := imperativelySet\<rparr>"

text \<open>
  \<^verbatim>\<open>loader.LoadWithContext(ctx, configDetails, optionFns...)\<close> belongs to the compose
  library: it is a parameter here. It answers with an error or a Project.
\<close>

type_synonym loader = "ConfigDetails \<Rightarrow> (Options \<Rightarrow> Options) list \<Rightarrow> error + Project"

definition createDockerProject :: "loader \<Rightarrow> string \<Rightarrow> Project outcome \<times> event list" where
  "createDockerProject LoadWithContext data =
     (let configDetails = \<lparr>ConfigDetails_WorkingDir = ''/in-memory/'',
            ConfigDetails_ConfigFiles =
              [\<lparr>ConfigFile_Filename = ''docker-compose.yaml'', ConfigFile_Content = data\<rparr>],
            ConfigDetails_Environment = []\<rparr>;
          projectName = ''testproject''
      in case LoadWithContext configDetails
                [\<lambda>options. SetProjectName projectName True options] of
           Inl err \<Rightarrow> (Exit 1, [log_Fatalln [Str ''Failed to load docker:'', Err (Some err)]])
         | Inr p \<Rightarrow> (Return p, []))"



section \<open>insta.go: main and its commands\<close>

text \<open>
  The command table of \<^verbatim>\<open>cli.App\<close>: name, aliases and which action closure it runs.
  The first command is declared without a name.
\<close>

datatype action = UpAction | RunAction | ConnectAction | DownAction | UpdateAction

record Command =
  Command_Name :: string
  Command_Aliases :: "string list"
  Command_Action :: action

definition Commands :: "Command list" where
  "Commands =
     [\<lparr>Command_Name = [], Command_Aliases = [], Command_Action = UpAction\<rparr>,
      \<lparr>Command_Name = ''run'', Command_Aliases = [''r''], Command_Action = RunAction\<rparr>,
      \<lparr>Command_Name = ''connect'', Command_Aliases = [''c''], Command_Action = ConnectAction\<rparr>,
      \<lparr>Command_Name = ''down'', Command_Aliases = [''d''], Command_Action = DownAction\<rparr>,
      \<lparr>Command_Name = ''update'', Command_Aliases = [''u''], Command_Action = UpdateAction\<rparr>]"

text \<open>\<^verbatim>\<open>cCtx.Args().First()\<close>: the first argument, or the empty string.\<close>

definition First :: "string list \<Rightarrow> string" where
  "First args = (case args of [] \<Rightarrow> [] | a # rest \<Rightarrow> a)"

text \<open>The five \<^verbatim>\<open>Action\<close> closures; \<open>args\<close> is \<^verbatim>\<open>cCtx.Args().Slice()\<close>.\<close>

fun Action ::
  "action \<Rightarrow> 's Service \<Rightarrow> string list \<Rightarrow> 's world \<Rightarrow> error option outcome \<times> 's world" where
  "Action UpAction srv args w =
     andThen (runServices srv args w) (\<lambda>err w'.
       if err \<noteq> None
       then (Exit 1, emit (log_Fatalln [Str ''Failed to run services:'', Err err]) w')
       else (Return None, w'))"
| "Action RunAction srv args w =
     (Return None, emit (fmt_Println [Str ''run task: '', Str (First args)]) w)"
| "Action ConnectAction srv args w =
     (Return None, emit (fmt_Println [Str ''connect task: '', Str (First args)]) w)"
| "Action DownAction srv args w =
     andThen (downServices srv args w) (\<lambda>err w'.
       if err \<noteq> None
       then (Exit 1, emit (log_Fatalln [Str ''Failed to bring down services:'', Err err]) w')
       else (Return None, w'))"
| "Action UpdateAction srv args w =
     (Return None, emit (fmt_Println [Str ''update task: '', Str (First args)]) w)"

text \<open>
  \<^verbatim>\<open>app.Run(os.Args)\<close> belongs to the CLI library. Its dispatch is modelled for plain
  invocations only: no argument after the program name begins with \<^verbatim>\<open>-\<close> (the
  library parses those as flags), and the first argument is not empty and is the name or
  an alias of a command of the table; then the first such command runs, with the
  remaining arguments as its \<^verbatim>\<open>Args\<close>. Every other invocation (no argument, a flag,
  no command of that name) is the library's own parsing, help output and exit codes:
  what happens then is the parameter \<open>otherwise\<close>, about which nothing is assumed.
\<close>

definition HasName :: "string \<Rightarrow> Command \<Rightarrow> bool" where
  "HasName name c \<longleftrightarrow> name \<in> set (Command_Name c # Command_Aliases c)"

definition isFlag :: "string \<Rightarrow> bool" where
  "isFlag a = (case a of [] \<Rightarrow> False | c # cs \<Rightarrow> c = CHR ''-'')"

definition app_Run ::
  "(string list \<Rightarrow> 's Service \<Rightarrow> 's world \<Rightarrow> error option outcome \<times> 's world) \<Rightarrow>
   's Service \<Rightarrow> string list \<Rightarrow> 's world \<Rightarrow> error option outcome \<times> 's world" where
  "app_Run otherwise srv osArgs w =
     (case tl osArgs of
        [] \<Rightarrow> otherwise [] srv w
      | name # args \<Rightarrow>
          if name = [] \<or> list_ex isFlag (name # args)
          then otherwise (name # args) srv w
          else
            (case find (HasName name) Commands of
               None \<Rightarrow> otherwise (name # args) srv w
             | Some c \<Rightarrow> Action (Command_Action c) srv args w))"

text \<open>The statements of \<^verbatim>\<open>main\<close> after \<^verbatim>\<open>app.Run\<close> has returned \<^verbatim>\<open>nil\<close>.\<close>

definition afterRun :: "'s Service \<Rightarrow> 's world \<Rightarrow> unit outcome \<times> 's world" where
  "afterRun srv w =
     andThen (connectToService srv ''my-service'' ''echo hello world'' w) (\<lambda>_ w1.
     andThen (connectToService srv ''my-service'' ''cd / && ls'' w1) (\<lambda>_ w2.
       let w3 = emit (fmt_Println [Str ''Docker service down...'']) w2;
           downOptions = \<lparr>DownOptions_Services = []\<rparr>;
           w4 = emit (srv_Down (Project_Name (project w3)) downOptions) w3;
           (err, b') = Down srv (Project_Name (project w4)) downOptions (backend w4);
           w5 = w4\<lparr>backend := b'\<rparr>
       in if err \<noteq> None
          then (Exit 1, emit (log_Fatalln [Str ''Failed to bring services down:'', Err err]) w5)
          else (Return (), w5)))"

text \<open>
  \<^verbatim>\<open>main\<close>. \<open>created\<close> is what \<^verbatim>\<open>createDockerService()\<close> returned (building the
  Docker client is the libraries' work), \<open>b\<close> the backend's state when the process
  starts, \<open>otherwise\<close> the CLI library outside the plain invocations. The result is
  the exit status, the events and the backend's state at the end.
\<close>

definition main ::
  "loader \<Rightarrow> string \<Rightarrow> 's Service \<times> error option \<Rightarrow>
   (string list \<Rightarrow> 's Service \<Rightarrow> 's world \<Rightarrow> error option outcome \<times> 's world) \<Rightarrow>
   string list \<Rightarrow> 's \<Rightarrow> nat \<times> event list \<times> 's" where
  "main LoadWithContext baseDockerComposeYaml created otherwise osArgs b =
     (case createDockerProject LoadWithContext baseDockerComposeYaml of
        (Exit c, evs) \<Rightarrow> (c, evs, b)
      | (Return p, evs) \<Rightarrow>
          (case created of (srv, err) \<Rightarrow>
             if err \<noteq> None
             then (1, evs @ [log_Fatalln [Str ''Failed to create docker service:'', Err err]], b)
             else
               (case andThen (app_Run otherwise srv osArgs
                                \<lparr>backend = b, project = p, trace = evs\<rparr>)
                      (\<lambda>err w.
                         if err \<noteq> None then (Exit 1, emit (log_Fatal [Err err]) w)
                         else afterRun srv w) of
                  (Exit c, w) \<Rightarrow> (c, trace w, backend w)
                | (Return u, w) \<Rightarrow> (0, trace w, backend w))))"


section \<open>Backends and a loader to run the program against\<close>

text \<open>The names of the services a Project declares.\<close>

definition serviceNames :: "Project \<Rightarrow> string list" where
  "serviceNames p = map ServiceConfig_Name (Project_Services p)"

text \<open>
  A backend that keeps the list of running services; a request that names no service
  stands for all of the Project's. \<open>strict\<close> says whether \<^verbatim>\<open>Exec\<close> refuses a
  service that is not running.
\<close>

definition fakeBackend :: "bool \<Rightarrow> (string list) Service" where
  "fakeBackend strict =
     \<lparr>Up = (\<lambda>p opts s.
        let targets = (if StartOptions_Services (UpOptions_Start opts) = []
                       then serviceNames p
                       else StartOptions_Services (UpOptions_Start opts))
        in (None, p, s @ filter (\<lambda>n. n \<notin> set s) (remdups targets))),
      Down = (\<lambda>name opts s.
        (None, if DownOptions_Services opts = [] then []
               else filter (\<lambda>n. n \<notin> set (DownOptions_Services opts)) s)),
      Exec = (\<lambda>name opts s.
        if strict \<and> RunOptions_Service opts \<notin> set s
        then (0, Some ''service is not running'', s)
        else (0, None, s))\<rparr>"

text \<open>A backend that cannot be reached.\<close>

definition unreachableBackend :: "unit Service" where
  "unreachableBackend =
     \<lparr>Up = (\<lambda>p opts s. (Some ''cannot connect to the daemon'', p, s)),
      Down = (\<lambda>name opts s. (Some ''cannot connect to the daemon'', s)),
      Exec = (\<lambda>name opts s. (0, Some ''cannot connect to the daemon'', s))\<rparr>"

text \<open>A backend whose \<^verbatim>\<open>Up\<close> succeeds once and then finds the port taken; its state
  counts the calls.\<close>

definition onceOnlyBackend :: "nat Service" where
  "onceOnlyBackend =
     \<lparr>Up = (\<lambda>p opts n.
        (if n = 0 then None else Some ''port is already allocated'', p, Suc n)),
      Down = (\<lambda>name opts n. (None, 0)),
      Exec = (\<lambda>name opts n. (0, None, n))\<rparr>"

text \<open>A backend whose \<^verbatim>\<open>Up\<close> writes the resolved image reference back into each
  service definition of the Project it was handed.\<close>

definition pinningBackend :: "unit Service" where
  "pinningBackend =
     \<lparr>Up = (\<lambda>p opts s.
        (None,
         p\<lparr>Project_Services :=
             map (\<lambda>c. c\<lparr>ServiceConfig_Image := ServiceConfig_Image c @ ''@sha256:0''\<rparr>)
               (Project_Services p)\<rparr>,
         s)),
      Down = (\<lambda>name opts s. (None, s)),
      Exec = (\<lambda>name opts s. (0, None, s))\<rparr>"

text \<open>
  A backend that accepts everything and whose state is the list of the calls it has
  received, with their arguments. \<open>f\<close> is what its \<^verbatim>\<open>Up\<close> does to the Project it is
  handed.
\<close>

definition recordingBackend :: "(Project \<Rightarrow> Project) \<Rightarrow> (event list) Service" where
  "recordingBackend f =
     \<lparr>Up = (\<lambda>p opts s. (None, f p, s @ [srv_Up p opts])),
      Down = (\<lambda>name opts s. (None, s @ [srv_Down name opts])),
      Exec = (\<lambda>name opts s. (0, None, s @ [srv_Exec name opts]))\<rparr>"

text \<open>A loader that takes each line of the text as a service name and names the Project
  as the options say.\<close>

fun splitLines :: "string \<Rightarrow> string \<Rightarrow> string list" where
  "splitLines [] cur = (if cur = [] then [] else [cur])"
| "splitLines (c # cs) cur =
     (if c = CHR 0x0A then cur # splitLines cs [] else splitLines cs (cur @ [c]))"

definition lineLoader :: loader where
  "lineLoader details fns =
     (let options = fold (\<lambda>f. f) fns
            \<lparr>Options_projectName = [], Options_projectNameImperativelySet = False\<rparr>
      in case ConfigDetails_ConfigFiles details of
           [] \<Rightarrow> Inl ''no config file''
         | file # rest \<Rightarrow>
             Inr \<lparr>Project_Name = Options_projectName options,
                  Project_Services =
                    map (\<lambda>n. \<lparr>ServiceConfig_Name = n, ServiceConfig_Image = n\<rparr>)
                      (splitLines (ConfigFile_Content file) [])\<rparr>)"

definition webProject :: Project where
  "webProject =
     \<lparr>Project_Name = ''testproject'',
      Project_Services =
        [\<lparr>ServiceConfig_Name = ''web'', ServiceConfig_Image = ''web''\<rparr>,
         \<lparr>ServiceConfig_Name = ''web-data'', ServiceConfig_Image = ''web-data''\<rparr>,
         \<lparr>ServiceConfig_Name = ''web-init'', ServiceConfig_Image = ''web-init''\<rparr>]\<rparr>"

text \<open>
  What it means for a backend's \<^verbatim>\<open>Up\<close> to be idempotent, \<open>running\<close> being the set of
  services the backend reports running: after an \<^verbatim>\<open>Up\<close> that succeeded, the same
  request succeeds again and reports the same services.
\<close>

definition UpIdempotent :: "'s Service \<Rightarrow> ('s \<Rightarrow> string set) \<Rightarrow> bool" where
  "UpIdempotent srv running \<longleftrightarrow>
     (\<forall>p opts s p1 s1.
        Up srv p opts s = (None, p1, s1) \<longrightarrow>
        (\<exists>p2 s2. Up srv p1 opts s1 = (None, p2, s2) \<and> running s2 = running s1))"


section \<open>Properties of the naming convention\<close>

lemma HasSuffix_iff_suffix: "HasSuffix s sfx \<longleftrightarrow> suffix sfx s"
proof
  assume "HasSuffix s sfx"
  then have "drop (length s - length sfx) s = sfx"
    by (simp add: HasSuffix_def)
  then have "s = take (length s - length sfx) s @ sfx"
    by (metis append_take_drop_id)
  then show "suffix sfx s"
    by (metis suffixI)
next
  assume "suffix sfx s"
  then obtain pre where "s = pre @ sfx"
    by (auto simp: suffix_def)
  then show "HasSuffix s sfx"
    by (simp add: HasSuffix_def)
qed

lemma suffixLoop_iff:
  "suffixLoop n sfxs flag \<longleftrightarrow> flag \<or> (\<exists>sfx \<in> set sfxs. HasSuffix n sfx)"
  by (induction sfxs) auto

lemma hasNonServiceSuffix_iff:
  "hasNonServiceSuffix n \<longleftrightarrow>
     suffix ''-data'' n \<or> suffix ''-init'' n \<or> suffix ''-server'' n"
  by (simp add: hasNonServiceSuffix_def suffixLoop_iff nonServiceSuffix_def
      HasSuffix_iff_suffix)

lemma set_printLoop:
  "set (printLoop services) =
     {n \<in> ServiceConfig_Name ` set services. hasNonServiceSuffix n}"
  by (induction services) auto

text \<open>
  Claim C5. The flag the program computes for a service name (set: the name is an
  auxiliary unit; clear: a primary service) is set exactly when the name ends with one of
  the three markers \<^verbatim>\<open>-data\<close>, \<^verbatim>\<open>-init\<close>, \<^verbatim>\<open>-server\<close>, that is, when the name is
  some prefix followed by the marker. So \<^verbatim>\<open>cache-data\<close> and \<^verbatim>\<open>db-init\<close> are
  auxiliary, and \<^verbatim>\<open>api\<close> and \<^verbatim>\<open>worker\<close> are primary.
\<close>

theorem classify_by_suffix:
  "(hasNonServiceSuffix n \<longleftrightarrow>
      (\<exists>pre. n = pre @ ''-data'') \<or> (\<exists>pre. n = pre @ ''-init'') \<or>
      (\<exists>pre. n = pre @ ''-server''))
   \<and> hasNonServiceSuffix ''cache-data'' \<and> hasNonServiceSuffix ''db-init''
   \<and> \<not> hasNonServiceSuffix ''api'' \<and> \<not> hasNonServiceSuffix ''worker''"
proof -
  have general: "hasNonServiceSuffix n \<longleftrightarrow>
      (\<exists>pre. n = pre @ ''-data'') \<or> (\<exists>pre. n = pre @ ''-init'') \<or>
      (\<exists>pre. n = pre @ ''-server'')"
    by (simp add: hasNonServiceSuffix_iff suffix_def)
  have examples: "hasNonServiceSuffix ''cache-data''" "hasNonServiceSuffix ''db-init''"
      "\<not> hasNonServiceSuffix ''api''" "\<not> hasNonServiceSuffix ''worker''"
    by (simp_all add: hasNonServiceSuffix_def nonServiceSuffix_def HasSuffix_def)
  from general examples show ?thesis
    by blast
qed

section \<open>What the lifecycle operations send and how they end\<close>

lemma requests_append [simp]: "requests (xs @ ys) = requests xs @ requests ys"
  by (simp add: requests_def)

lemma requests_Cons [simp]: "requests (e # tr) = (if isRequest e then e # requests tr else requests tr)"
  by (simp add: requests_def)

lemma requests_Nil [simp]: "requests [] = []"
  by (simp add: requests_def)

lemma startRequests_append [simp]:
  "startRequests (xs @ ys) = startRequests xs @ startRequests ys"
  by (simp add: startRequests_def)

lemma startRequests_Cons [simp]:
  "startRequests (e # tr) = (if isStart e then e # startRequests tr else startRequests tr)"
  by (simp add: startRequests_def)

lemma startRequests_Nil [simp]: "startRequests [] = []"
  by (simp add: startRequests_def)

lemma runServices_cases:
  assumes "Up srv (project w) \<lparr>UpOptions_Start = \<lparr>StartOptions_Services = services\<rparr>\<rparr> (backend w)
             = (err, p', b')"
  shows "runServices srv services w =
     (if err \<noteq> None
      then (Exit 1,
            \<lparr>backend = b', project = p',
               trace = trace w @
                 [log_Println [Str ''Attempting to being services up:'', Strs services],
                  srv_Up (project w) \<lparr>UpOptions_Start = \<lparr>StartOptions_Services = services\<rparr>\<rparr>,
                  log_Fatalln [Str ''Failed to bring services up:'', Err err]]\<rparr>)
      else (Return None,
            \<lparr>backend = b', project = p',
               trace = trace w @
                 [log_Println [Str ''Attempting to being services up:'', Strs services],
                  srv_Up (project w) \<lparr>UpOptions_Start = \<lparr>StartOptions_Services = services\<rparr>\<rparr>]\<rparr>))"
  using assms by (simp add: runServices_def emit_def Let_def)

lemma downServices_cases:
  assumes "Down srv (Project_Name (project w)) \<lparr>DownOptions_Services = services\<rparr> (backend w)
             = (err, b')"
  shows "downServices srv services w =
     (if err \<noteq> None
      then (Exit 1,
            \<lparr>backend = b', project = project w,
               trace = trace w @
                 [log_Println [Str ''Attempting to being services down:'', Strs services],
                  srv_Down (Project_Name (project w)) \<lparr>DownOptions_Services = services\<rparr>,
                  log_Fatalln [Str ''Failed to bring services down:'', Err err]]\<rparr>)
      else (Return None,
            \<lparr>backend = b', project = project w,
               trace = trace w @
                 [log_Println [Str ''Attempting to being services down:'', Strs services],
                  srv_Down (Project_Name (project w)) \<lparr>DownOptions_Services = services\<rparr>]\<rparr>))"
  using assms by (simp add: downServices_def emit_def Let_def)

lemma connectToService_cases:
  assumes "Exec srv (Project_Name (project w))
             \<lparr>RunOptions_Service = service, RunOptions_Command = [cmd],
                RunOptions_WorkingDir = ''/bin'', RunOptions_Tty = True,
                RunOptions_Environment = []\<rparr> (backend w) = (result, err, b')"
  shows "connectToService srv service cmd w =
     (if err \<noteq> None
      then (Exit 1,
            \<lparr>backend = b', project = project w,
               trace = trace w @
                 [srv_Exec (Project_Name (project w))
                    \<lparr>RunOptions_Service = service, RunOptions_Command = [cmd],
                       RunOptions_WorkingDir = ''/bin'', RunOptions_Tty = True,
                       RunOptions_Environment = []\<rparr>,
                  log_Fatalln [Str ''Failed to connect to service:'', Str service,
                    Str ''. Error:'', Err err]]\<rparr>)
      else (Return (),
            \<lparr>backend = b', project = project w,
               trace = trace w @
                 [srv_Exec (Project_Name (project w))
                    \<lparr>RunOptions_Service = service, RunOptions_Command = [cmd],
                       RunOptions_WorkingDir = ''/bin'', RunOptions_Tty = True,
                       RunOptions_Environment = []\<rparr>,
                  log_Println [Str ''Command result:'', Num result, Str '' and err:'',
                    Err None]]\<rparr>))"
  using assms by (simp add: connectToService_def emit_def Let_def)


section \<open>The claims\<close>

text \<open>
  Claim C1. With no arguments, the listing should show a declared service name exactly
  when the name does not end with one of the markers. The program does the opposite:
  for the services \<^verbatim>\<open>web\<close>, \<^verbatim>\<open>web-data\<close>, \<^verbatim>\<open>web-init\<close> it prints the two
  auxiliary names and leaves \<^verbatim>\<open>web\<close> out; in general it prints exactly the names
  that do end with a marker.
\<close>

theorem printServices_prints_marked_names:
  "printServices 0 (Project_Services webProject) = [''web-data'', ''web-init'']
   \<and> set (printServices 0 services) =
       {n \<in> ServiceConfig_Name ` set services. hasNonServiceSuffix n}"
proof -
  have "printServices 0 (Project_Services webProject) = [''web-data'', ''web-init'']"
    by (simp add: printServices_def webProject_def hasNonServiceSuffix_def
        nonServiceSuffix_def HasSuffix_def)
  moreover have "set (printServices 0 services) =
       {n \<in> ServiceConfig_Name ` set services. hasNonServiceSuffix n}"
    by (simp add: printServices_def set_printLoop)
  ultimately show ?thesis by blast
qed

text \<open>
  Claim C2, as stated: a backend error during bring-up or bring-down comes back to the
  caller. It does not: against a backend that cannot be reached, both operations end the
  process with status 1.
\<close>

theorem backend_error_not_returned:
  "fst (runServices unreachableBackend []
          \<lparr>backend = (), project = webProject, trace = []\<rparr>) = Exit 1
   \<and> fst (downServices unreachableBackend []
          \<lparr>backend = (), project = webProject, trace = []\<rparr>) = Exit 1"
  by (simp add: runServices_def downServices_def unreachableBackend_def emit_def)

text \<open>
  Claim C2, amended. Bring-up and bring-down return to their caller exactly when the
  backend reported no error, and then they return \<^verbatim>\<open>nil\<close>. When the backend reports an
  error, the operation logs it (the error is an operand of the last line logged) and ends
  the process with status 1 inside the operation. So no error is swallowed, and none is
  ever returned.
\<close>

theorem backend_error_is_fatal:
  "fst (runServices srv services w) =
     (case fst (Up srv (project w)
                 \<lparr>UpOptions_Start = \<lparr>StartOptions_Services = services\<rparr>\<rparr> (backend w)) of
        None \<Rightarrow> Return None | Some e \<Rightarrow> Exit 1)
   \<and> trace (snd (runServices srv services w)) =
       trace w @
       [log_Println [Str ''Attempting to being services up:'', Strs services],
        srv_Up (project w) \<lparr>UpOptions_Start = \<lparr>StartOptions_Services = services\<rparr>\<rparr>] @
       (case fst (Up srv (project w)
                   \<lparr>UpOptions_Start = \<lparr>StartOptions_Services = services\<rparr>\<rparr> (backend w)) of
          None \<Rightarrow> []
        | Some e \<Rightarrow> [log_Fatalln [Str ''Failed to bring services up:'', Err (Some e)]])
   \<and> fst (downServices srv services w) =
     (case fst (Down srv (Project_Name (project w))
                 \<lparr>DownOptions_Services = services\<rparr> (backend w)) of
        None \<Rightarrow> Return None | Some e \<Rightarrow> Exit 1)
   \<and> trace (snd (downServices srv services w)) =
       trace w @
       [log_Println [Str ''Attempting to being services down:'', Strs services],
        srv_Down (Project_Name (project w)) \<lparr>DownOptions_Services = services\<rparr>] @
       (case fst (Down srv (Project_Name (project w))
                   \<lparr>DownOptions_Services = services\<rparr> (backend w)) of
          None \<Rightarrow> []
        | Some e \<Rightarrow> [log_Fatalln [Str ''Failed to bring services down:'', Err (Some e)]])"
proof -
  obtain err p' b' where up:
    "Up srv (project w) \<lparr>UpOptions_Start = \<lparr>StartOptions_Services = services\<rparr>\<rparr> (backend w)
       = (err, p', b')"
    by (metis prod_cases3)
  obtain derr db where down:
    "Down srv (Project_Name (project w)) \<lparr>DownOptions_Services = services\<rparr> (backend w)
       = (derr, db)"
    by (metis surj_pair)
  show ?thesis
    by (cases err; cases derr)
      (simp_all add: runServices_cases [OF up] downServices_cases [OF down] up down)
qed

text \<open>
  Claim C3. \<^verbatim>\<open>connect <service> <command>\<close> should attach to the named service with the
  given command. The program's \<^verbatim>\<open>connect\<close> action prints one line and returns: it
  calls nothing of the backend and records no request, whatever its arguments. A plain
  \<^verbatim>\<open>connect <service> <command>\<close> runs just that action. The only exec requests of a
  run are the two that \<^verbatim>\<open>main\<close> issues after the CLI has returned, against the fixed
  service \<^verbatim>\<open>my-service\<close>: for \<^verbatim>\<open>insta connect web ls\<close> no request names \<^verbatim>\<open>web\<close> or
  \<^verbatim>\<open>ls\<close>.
\<close>

theorem connect_command_is_a_stub:
  "Action ConnectAction srv args w =
     (Return None, emit (fmt_Println [Str ''connect task: '', Str (First args)]) w)
   \<and> backend (snd (Action ConnectAction srv args w)) = backend w
   \<and> requests (trace (snd (Action ConnectAction srv args w))) = requests (trace w)
   \<and> app_Run otherwise srv [prog, ''connect'', service, cmd] w =
       (if isFlag service \<or> isFlag cmd then otherwise [''connect'', service, cmd] srv w
        else (Return None, emit (fmt_Println [Str ''connect task: '', Str service]) w))
   \<and> main lineLoader (''web'' @ [CHR 0x0A] @ ''web-data'') (fakeBackend False, None)
        otherwise [''insta'', ''connect'', ''web'', ''ls''] [''web''] =
       (0,
        [fmt_Println [Str ''connect task: '', Str ''web''],
         srv_Exec ''testproject''
           \<lparr>RunOptions_Service = ''my-service'', RunOptions_Command = [''echo hello world''],
              RunOptions_WorkingDir = ''/bin'', RunOptions_Tty = True,
              RunOptions_Environment = []\<rparr>,
         log_Println [Str ''Command result:'', Num 0, Str '' and err:'', Err None],
         srv_Exec ''testproject''
           \<lparr>RunOptions_Service = ''my-service'', RunOptions_Command = [''cd / && ls''],
              RunOptions_WorkingDir = ''/bin'', RunOptions_Tty = True,
              RunOptions_Environment = []\<rparr>,
         log_Println [Str ''Command result:'', Num 0, Str '' and err:'', Err None],
         fmt_Println [Str ''Docker service down...''],
         srv_Down ''testproject'' \<lparr>DownOptions_Services = []\<rparr>],
        [])"
proof -
  have act: "Action ConnectAction srv args w =
     (Return None, emit (fmt_Println [Str ''connect task: '', Str (First args)]) w)"
    by simp
  have still: "backend (snd (Action ConnectAction srv args w)) = backend w"
    by (simp add: emit_def)
  have quiet: "requests (trace (snd (Action ConnectAction srv args w))) = requests (trace w)"
    by (simp add: emit_def)
  have run: "app_Run otherwise srv [prog, ''connect'', service, cmd] w =
       (if isFlag service \<or> isFlag cmd then otherwise [''connect'', service, cmd] srv w
        else (Return None, emit (fmt_Println [Str ''connect task: '', Str service]) w))"
    by (simp add: app_Run_def Commands_def HasName_def First_def isFlag_def)
  have whole: "main lineLoader (''web'' @ [CHR 0x0A] @ ''web-data'') (fakeBackend False, None)
        otherwise [''insta'', ''connect'', ''web'', ''ls''] [''web''] =
       (0,
        [fmt_Println [Str ''connect task: '', Str ''web''],
         srv_Exec ''testproject''
           \<lparr>RunOptions_Service = ''my-service'', RunOptions_Command = [''echo hello world''],
              RunOptions_WorkingDir = ''/bin'', RunOptions_Tty = True,
              RunOptions_Environment = []\<rparr>,
         log_Println [Str ''Command result:'', Num 0, Str '' and err:'', Err None],
         srv_Exec ''testproject''
           \<lparr>RunOptions_Service = ''my-service'', RunOptions_Command = [''cd / && ls''],
              RunOptions_WorkingDir = ''/bin'', RunOptions_Tty = True,
              RunOptions_Environment = []\<rparr>,
         log_Println [Str ''Command result:'', Num 0, Str '' and err:'', Err None],
         fmt_Println [Str ''Docker service down...''],
         srv_Down ''testproject'' \<lparr>DownOptions_Services = []\<rparr>],
        [])"
    by (simp add: main_def createDockerProject_def lineLoader_def SetProjectName_def
        app_Run_def Commands_def HasName_def First_def isFlag_def andThen_def afterRun_def
        connectToService_def fakeBackend_def emit_def)
  from act still quiet run whole show ?thesis by blast
qed

text \<open>
  Claim C4. Bring-up with no target services makes exactly one call of the backend: one
  \<^verbatim>\<open>Up\<close> that is handed the whole Project, with all its declared services, and no list
  of names to narrow it. It is the one request recorded; and the backend's state, the
  Project and the outcome after bring-up are those of that single \<^verbatim>\<open>Up\<close> call applied
  to the state before, for every backend and however many services the Project declares.
  A backend that records the calls it receives has received exactly this one call for the
  three services of \<^verbatim>\<open>web\<close>, \<^verbatim>\<open>web-data\<close>, \<^verbatim>\<open>web-init\<close>.
\<close>

theorem bring_up_all_is_one_request:
  "requests (trace (snd (runServices srv [] w))) =
     requests (trace w) @
     [srv_Up (project w) \<lparr>UpOptions_Start = \<lparr>StartOptions_Services = []\<rparr>\<rparr>]
   \<and> length (requests (trace (snd (runServices srv [] w)))) =
       Suc (length (requests (trace w)))
   \<and> backend (snd (runServices srv [] w)) =
       snd (snd (Up srv (project w)
                  \<lparr>UpOptions_Start = \<lparr>StartOptions_Services = []\<rparr>\<rparr> (backend w)))
   \<and> project (snd (runServices srv [] w)) =
       fst (snd (Up srv (project w)
                  \<lparr>UpOptions_Start = \<lparr>StartOptions_Services = []\<rparr>\<rparr> (backend w)))
   \<and> fst (runServices srv [] w) =
       (case fst (Up srv (project w)
                   \<lparr>UpOptions_Start = \<lparr>StartOptions_Services = []\<rparr>\<rparr> (backend w)) of
          None \<Rightarrow> Return None | Some e \<Rightarrow> Exit 1)
   \<and> backend (snd (runServices (recordingBackend (\<lambda>p. p)) []
                      \<lparr>backend = [], project = webProject, trace = []\<rparr>)) =
       [srv_Up webProject \<lparr>UpOptions_Start = \<lparr>StartOptions_Services = []\<rparr>\<rparr>]"
proof -
  obtain err p' b' where up:
    "Up srv (project w) \<lparr>UpOptions_Start = \<lparr>StartOptions_Services = []\<rparr>\<rparr> (backend w)
       = (err, p', b')"
    by (metis prod_cases3)
  have general:
    "requests (trace (snd (runServices srv [] w))) =
       requests (trace w) @
       [srv_Up (project w) \<lparr>UpOptions_Start = \<lparr>StartOptions_Services = []\<rparr>\<rparr>]"
    "length (requests (trace (snd (runServices srv [] w)))) =
       Suc (length (requests (trace w)))"
    "backend (snd (runServices srv [] w)) =
       snd (snd (Up srv (project w)
                  \<lparr>UpOptions_Start = \<lparr>StartOptions_Services = []\<rparr>\<rparr> (backend w)))"
    "project (snd (runServices srv [] w)) =
       fst (snd (Up srv (project w)
                  \<lparr>UpOptions_Start = \<lparr>StartOptions_Services = []\<rparr>\<rparr> (backend w)))"
    "fst (runServices srv [] w) =
       (case fst (Up srv (project w)
                   \<lparr>UpOptions_Start = \<lparr>StartOptions_Services = []\<rparr>\<rparr> (backend w)) of
          None \<Rightarrow> Return None | Some e \<Rightarrow> Exit 1)"
    by (cases err; simp add: runServices_cases [OF up] up)+
  have recorded:
    "backend (snd (runServices (recordingBackend (\<lambda>p. p)) []
                      \<lparr>backend = [], project = webProject, trace = []\<rparr>)) =
       [srv_Up webProject \<lparr>UpOptions_Start = \<lparr>StartOptions_Services = []\<rparr>\<rparr>]"
    by (simp add: runServices_def recordingBackend_def emit_def Let_def)
  from general recorded show ?thesis by blast
qed

text \<open>
  Claim C6, as stated: a second bring-up right after the first never fails. The program
  only forwards to the backend, so this is as true as the backend makes it: against a
  backend whose second \<^verbatim>\<open>Up\<close> finds the port taken, the first bring-up returns and the
  second ends the process.
\<close>

theorem second_bring_up_can_fail:
  "fst (runServices onceOnlyBackend [''web'']
          \<lparr>backend = 0, project = webProject, trace = []\<rparr>) = Return None
   \<and> fst (runServices onceOnlyBackend [''web'']
          (snd (runServices onceOnlyBackend [''web'']
                  \<lparr>backend = 0, project = webProject, trace = []\<rparr>))) = Exit 1"
  by (simp add: runServices_def onceOnlyBackend_def emit_def)

text \<open>
  Claim C6, amended. The orchestrator keeps no state between calls: the second bring-up
  sends the same \<^verbatim>\<open>Up\<close> request, for the same target services, as the first. When the
  backend's \<^verbatim>\<open>Up\<close> is idempotent, a second bring-up right after a first one that
  returned also returns without error, and the backend reports the same services running.
\<close>

theorem bring_up_twice:
  assumes idem: "UpIdempotent srv running"
    and first: "runServices srv S w = (Return None, w1)"
  shows "\<exists>w2. runServices srv S w1 = (Return None, w2)
           \<and> running (backend w2) = running (backend w1)
           \<and> requests (trace w2) =
               requests (trace w) @
               [srv_Up (project w) \<lparr>UpOptions_Start = \<lparr>StartOptions_Services = S\<rparr>\<rparr>,
                srv_Up (project w1) \<lparr>UpOptions_Start = \<lparr>StartOptions_Services = S\<rparr>\<rparr>]"
proof -
  obtain err p1 s1 where up1:
    "Up srv (project w) \<lparr>UpOptions_Start = \<lparr>StartOptions_Services = S\<rparr>\<rparr> (backend w)
       = (err, p1, s1)"
    by (metis prod_cases3)
  from first have ok: "err = None"
    and w1: "w1 = \<lparr>backend = s1, project = p1,
               trace = trace w @
                 [log_Println [Str ''Attempting to being services up:'', Strs S],
                  srv_Up (project w) \<lparr>UpOptions_Start = \<lparr>StartOptions_Services = S\<rparr>\<rparr>]\<rparr>"
    by (auto simp: runServices_cases [OF up1] split: if_splits)
  from idem up1 ok obtain p2 s2 where up2:
    "Up srv p1 \<lparr>UpOptions_Start = \<lparr>StartOptions_Services = S\<rparr>\<rparr> s1 = (None, p2, s2)"
    and same: "running s2 = running s1"
    unfolding UpIdempotent_def by blast
  from up2 w1 have up2':
    "Up srv (project w1) \<lparr>UpOptions_Start = \<lparr>StartOptions_Services = S\<rparr>\<rparr> (backend w1)
       = (None, p2, s2)"
    by simp
  have run2: "runServices srv S w1 =
      (Return None,
       \<lparr>backend = s2, project = p2,
          trace = trace w1 @
            [log_Println [Str ''Attempting to being services up:'', Strs S],
             srv_Up (project w1) \<lparr>UpOptions_Start = \<lparr>StartOptions_Services = S\<rparr>\<rparr>]\<rparr>)"
    using runServices_cases [OF up2'] by simp
  have parts: "backend w1 = s1"
    "requests (trace w1) =
       requests (trace w) @
       [srv_Up (project w) \<lparr>UpOptions_Start = \<lparr>StartOptions_Services = S\<rparr>\<rparr>]"
    by (simp_all add: w1)
  show ?thesis
    unfolding run2 using same parts by simp
qed

text \<open>
  Claim C6, witness. The backend that keeps the list of running services is idempotent;
  bringing \<^verbatim>\<open>web\<close> up twice against it returns both times and leaves exactly
  \<^verbatim>\<open>web\<close> running.
\<close>

theorem bring_up_twice_witness:
  "UpIdempotent (fakeBackend True) set
   \<and> runServices (fakeBackend True) [''web'']
        \<lparr>backend = [], project = webProject, trace = []\<rparr> =
      (Return None,
       \<lparr>backend = [''web''], project = webProject,
          trace = [log_Println [Str ''Attempting to being services up:'', Strs [''web'']],
                   srv_Up webProject
                     \<lparr>UpOptions_Start = \<lparr>StartOptions_Services = [''web'']\<rparr>\<rparr>]\<rparr>)
   \<and> (\<exists>w2. runServices (fakeBackend True) [''web'']
               \<lparr>backend = [''web''], project = webProject,
                  trace = [log_Println [Str ''Attempting to being services up:'', Strs [''web'']],
                           srv_Up webProject
                             \<lparr>UpOptions_Start = \<lparr>StartOptions_Services = [''web'']\<rparr>\<rparr>]\<rparr>
              = (Return None, w2)
            \<and> set (backend w2) = {''web''})"
proof -
  have idem: "UpIdempotent (fakeBackend True) set"
    unfolding UpIdempotent_def fakeBackend_def by (auto simp: Let_def)
  have first: "runServices (fakeBackend True) [''web'']
        \<lparr>backend = [], project = webProject, trace = []\<rparr> =
      (Return None,
       \<lparr>backend = [''web''], project = webProject,
          trace = [log_Println [Str ''Attempting to being services up:'', Strs [''web'']],
                   srv_Up webProject
                     \<lparr>UpOptions_Start = \<lparr>StartOptions_Services = [''web'']\<rparr>\<rparr>]\<rparr>)"
    by (simp add: runServices_def fakeBackend_def emit_def)
  from bring_up_twice [OF idem first] idem first show ?thesis
    by auto
qed

text \<open>
  Claim C7, as stated: attaching to a service that is not running fails with a
  ServiceNotRunningError. The program does not look at what is running. With
  \<^verbatim>\<open>web-data\<close> not running, attach returns normally when the backend accepts the exec;
  and when the backend refuses it, no error comes back to the caller: the process ends
  with status 1.
\<close>

theorem attach_to_stopped_service:
  "''web-data'' \<notin> set [''web'']
   \<and> fst (connectToService (fakeBackend False) ''web-data'' ''echo hi''
            \<lparr>backend = [''web''], project = webProject, trace = []\<rparr>) = Return ()
   \<and> fst (connectToService (fakeBackend True) ''web-data'' ''echo hi''
            \<lparr>backend = [''web''], project = webProject, trace = []\<rparr>) = Exit 1"
  by (simp add: connectToService_def fakeBackend_def emit_def)

text \<open>
  Claim C7, amended. Attach never starts a service, running or not: it records no start
  request, and its one and only call of the backend is the exec, so the backend's state
  after attach is the state that this one \<^verbatim>\<open>Exec\<close> call left, and the Project is
  untouched. It makes no running check of its own. Whether it fails is the backend's
  answer to the exec alone: on an error the process ends with status 1 after a fatal log
  line naming the service and the error, and without one attach returns. A backend that
  records the calls it receives has received the exec and nothing else.
\<close>

theorem attach_never_starts:
  "startRequests (trace (snd (connectToService srv service cmd w))) = startRequests (trace w)
   \<and> requests (trace (snd (connectToService srv service cmd w))) =
       requests (trace w) @
       [srv_Exec (Project_Name (project w))
          \<lparr>RunOptions_Service = service, RunOptions_Command = [cmd],
             RunOptions_WorkingDir = ''/bin'', RunOptions_Tty = True,
             RunOptions_Environment = []\<rparr>]
   \<and> backend (snd (connectToService srv service cmd w)) =
       snd (snd (Exec srv (Project_Name (project w))
                  \<lparr>RunOptions_Service = service, RunOptions_Command = [cmd],
                     RunOptions_WorkingDir = ''/bin'', RunOptions_Tty = True,
                     RunOptions_Environment = []\<rparr> (backend w)))
   \<and> project (snd (connectToService srv service cmd w)) = project w
   \<and> fst (connectToService srv service cmd w) =
       (case fst (snd (Exec srv (Project_Name (project w))
                   \<lparr>RunOptions_Service = service, RunOptions_Command = [cmd],
                      RunOptions_WorkingDir = ''/bin'', RunOptions_Tty = True,
                      RunOptions_Environment = []\<rparr> (backend w))) of
          None \<Rightarrow> Return () | Some e \<Rightarrow> Exit 1)
   \<and> (case fst (snd (Exec srv (Project_Name (project w))
                   \<lparr>RunOptions_Service = service, RunOptions_Command = [cmd],
                      RunOptions_WorkingDir = ''/bin'', RunOptions_Tty = True,
                      RunOptions_Environment = []\<rparr> (backend w))) of
          None \<Rightarrow> True
        | Some e \<Rightarrow> last (trace (snd (connectToService srv service cmd w))) =
            log_Fatalln [Str ''Failed to connect to service:'', Str service,
              Str ''. Error:'', Err (Some e)])
   \<and> backend (snd (connectToService (recordingBackend (\<lambda>p. p)) ''web-data'' ''echo hi''
                      \<lparr>backend = [], project = webProject, trace = []\<rparr>)) =
       [srv_Exec ''testproject''
          \<lparr>RunOptions_Service = ''web-data'', RunOptions_Command = [''echo hi''],
             RunOptions_WorkingDir = ''/bin'', RunOptions_Tty = True,
             RunOptions_Environment = []\<rparr>]"
proof -
  obtain result err b' where ex:
    "Exec srv (Project_Name (project w))
       \<lparr>RunOptions_Service = service, RunOptions_Command = [cmd],
          RunOptions_WorkingDir = ''/bin'', RunOptions_Tty = True,
          RunOptions_Environment = []\<rparr> (backend w) = (result, err, b')"
    by (metis prod_cases3)
  have general:
    "startRequests (trace (snd (connectToService srv service cmd w))) = startRequests (trace w)"
    "requests (trace (snd (connectToService srv service cmd w))) =
       requests (trace w) @
       [srv_Exec (Project_Name (project w))
          \<lparr>RunOptions_Service = service, RunOptions_Command = [cmd],
             RunOptions_WorkingDir = ''/bin'', RunOptions_Tty = True,
             RunOptions_Environment = []\<rparr>]"
    "backend (snd (connectToService srv service cmd w)) =
       snd (snd (Exec srv (Project_Name (project w))
                  \<lparr>RunOptions_Service = service, RunOptions_Command = [cmd],
                     RunOptions_WorkingDir = ''/bin'', RunOptions_Tty = True,
                     RunOptions_Environment = []\<rparr> (backend w)))"
    "project (snd (connectToService srv service cmd w)) = project w"
    "fst (connectToService srv service cmd w) =
       (case fst (snd (Exec srv (Project_Name (project w))
                   \<lparr>RunOptions_Service = service, RunOptions_Command = [cmd],
                      RunOptions_WorkingDir = ''/bin'', RunOptions_Tty = True,
                      RunOptions_Environment = []\<rparr> (backend w))) of
          None \<Rightarrow> Return () | Some e \<Rightarrow> Exit 1)"
    "(case fst (snd (Exec srv (Project_Name (project w))
                   \<lparr>RunOptions_Service = service, RunOptions_Command = [cmd],
                      RunOptions_WorkingDir = ''/bin'', RunOptions_Tty = True,
                      RunOptions_Environment = []\<rparr> (backend w))) of
          None \<Rightarrow> True
        | Some e \<Rightarrow> last (trace (snd (connectToService srv service cmd w))) =
            log_Fatalln [Str ''Failed to connect to service:'', Str service,
              Str ''. Error:'', Err (Some e)])"
    by (cases err; simp add: connectToService_cases [OF ex] ex)+
  have recorded:
    "backend (snd (connectToService (recordingBackend (\<lambda>p. p)) ''web-data'' ''echo hi''
                      \<lparr>backend = [], project = webProject, trace = []\<rparr>)) =
       [srv_Exec ''testproject''
          \<lparr>RunOptions_Service = ''web-data'', RunOptions_Command = [''echo hi''],
             RunOptions_WorkingDir = ''/bin'', RunOptions_Tty = True,
             RunOptions_Environment = []\<rparr>]"
    by (simp add: connectToService_def recordingBackend_def emit_def webProject_def Let_def)
  from general recorded show ?thesis by blast
qed

text \<open>
  Claim C8, as stated: no operation changes the Project. Bring-up hands the backend the
  pointer to the Project, so the Project afterwards is the one the backend left: against
  a backend whose \<^verbatim>\<open>Up\<close> writes resolved image references into the service
  definitions, the Project after bring-up differs from the one loaded.
\<close>

theorem bring_up_can_change_project:
  "project (snd (runServices pinningBackend []
                   \<lparr>backend = (), project = webProject, trace = []\<rparr>)) \<noteq> webProject"
  by (simp add: runServices_def pinningBackend_def emit_def webProject_def)

text \<open>
  Claim C8, amended. Bring-down and attach leave the Project unchanged, for every
  backend: they pass the Project's name by value. Bring-up writes no field of the
  Project itself; it passes the Project by reference to the backend's \<^verbatim>\<open>Up\<close>, and the
  Project afterwards is exactly what that call left, so it is unchanged whenever the
  backend does not write through the reference.
\<close>

theorem project_frame:
  "project (snd (downServices srv services w)) = project w
   \<and> project (snd (connectToService srv service cmd w)) = project w
   \<and> project (snd (runServices srv services w)) =
       fst (snd (Up srv (project w)
                  \<lparr>UpOptions_Start = \<lparr>StartOptions_Services = services\<rparr>\<rparr> (backend w)))"
proof -
  obtain err p' b' where up:
    "Up srv (project w) \<lparr>UpOptions_Start = \<lparr>StartOptions_Services = services\<rparr>\<rparr> (backend w)
       = (err, p', b')"
    by (metis prod_cases3)
  obtain derr db where down:
    "Down srv (Project_Name (project w)) \<lparr>DownOptions_Services = services\<rparr> (backend w)
       = (derr, db)"
    by (metis surj_pair)
  obtain result xerr xb where ex:
    "Exec srv (Project_Name (project w))
       \<lparr>RunOptions_Service = service, RunOptions_Command = [cmd],
          RunOptions_WorkingDir = ''/bin'', RunOptions_Tty = True,
          RunOptions_Environment = []\<rparr> (backend w) = (result, xerr, xb)"
    by (metis prod_cases3)
  show ?thesis
    by (simp add: runServices_cases [OF up] downServices_cases [OF down]
        connectToService_cases [OF ex] up)
qed

text \<open>
  Claim C9. The exec call of an attach is fixed by the service name and the command
  line (and the Project's name as namespace): the backend's \<^verbatim>\<open>Exec\<close> is applied once,
  to an argument vector whose single element is the command line, unsplit, with working
  directory \<^verbatim>\<open>/bin\<close>, the tty on and an empty environment. Attach takes no working
  directory or terminal flag from its caller. The backend's state and attach's outcome are
  those of this one application, for every backend; the request recorded is the same; and
  a backend that records what it receives has received exactly these arguments, the
  command line \<^verbatim>\<open>cd / && ls\<close> in one piece.
\<close>

theorem exec_request_shape:
  "requests (trace (snd (connectToService srv service cmd w))) =
     requests (trace w) @
     [srv_Exec (Project_Name (project w))
        \<lparr>RunOptions_Service = service, RunOptions_Command = [cmd],
           RunOptions_WorkingDir = ''/bin'', RunOptions_Tty = True,
           RunOptions_Environment = []\<rparr>]
   \<and> snd (connectToService srv service cmd w) =
       (let (result, err, b') =
              Exec srv (Project_Name (project w))
                \<lparr>RunOptions_Service = service, RunOptions_Command = [cmd],
                   RunOptions_WorkingDir = ''/bin'', RunOptions_Tty = True,
                   RunOptions_Environment = []\<rparr> (backend w)
        in \<lparr>backend = b', project = project w,
              trace = trace w @
                [srv_Exec (Project_Name (project w))
                   \<lparr>RunOptions_Service = service, RunOptions_Command = [cmd],
                      RunOptions_WorkingDir = ''/bin'', RunOptions_Tty = True,
                      RunOptions_Environment = []\<rparr>,
                 if err \<noteq> None
                 then log_Fatalln [Str ''Failed to connect to service:'', Str service,
                        Str ''. Error:'', Err err]
                 else log_Println [Str ''Command result:'', Num result,
                        Str '' and err:'', Err err]]\<rparr>)
   \<and> fst (connectToService srv service cmd w) =
       (if fst (snd (Exec srv (Project_Name (project w))
                   \<lparr>RunOptions_Service = service, RunOptions_Command = [cmd],
                      RunOptions_WorkingDir = ''/bin'', RunOptions_Tty = True,
                      RunOptions_Environment = []\<rparr> (backend w))) \<noteq> None
        then Exit 1 else Return ())
   \<and> backend (snd (connectToService (recordingBackend (\<lambda>p. p)) ''web'' ''cd / && ls''
                      \<lparr>backend = [], project = webProject, trace = []\<rparr>)) =
       [srv_Exec ''testproject''
          \<lparr>RunOptions_Service = ''web'', RunOptions_Command = [''cd / && ls''],
             RunOptions_WorkingDir = ''/bin'', RunOptions_Tty = True,
             RunOptions_Environment = []\<rparr>]"
proof -
  obtain result err b' where ex:
    "Exec srv (Project_Name (project w))
       \<lparr>RunOptions_Service = service, RunOptions_Command = [cmd],
          RunOptions_WorkingDir = ''/bin'', RunOptions_Tty = True,
          RunOptions_Environment = []\<rparr> (backend w) = (result, err, b')"
    by (metis prod_cases3)
  have sent: "requests (trace (snd (connectToService srv service cmd w))) =
     requests (trace w) @
     [srv_Exec (Project_Name (project w))
        \<lparr>RunOptions_Service = service, RunOptions_Command = [cmd],
           RunOptions_WorkingDir = ''/bin'', RunOptions_Tty = True,
           RunOptions_Environment = []\<rparr>]"
    by (simp add: connectToService_cases [OF ex])
  have after: "snd (connectToService srv service cmd w) =
       (let (result, err, b') =
              Exec srv (Project_Name (project w))
                \<lparr>RunOptions_Service = service, RunOptions_Command = [cmd],
                   RunOptions_WorkingDir = ''/bin'', RunOptions_Tty = True,
                   RunOptions_Environment = []\<rparr> (backend w)
        in \<lparr>backend = b', project = project w,
              trace = trace w @
                [srv_Exec (Project_Name (project w))
                   \<lparr>RunOptions_Service = service, RunOptions_Command = [cmd],
                      RunOptions_WorkingDir = ''/bin'', RunOptions_Tty = True,
                      RunOptions_Environment = []\<rparr>,
                 if err \<noteq> None
                 then log_Fatalln [Str ''Failed to connect to service:'', Str service,
                        Str ''. Error:'', Err err]
                 else log_Println [Str ''Command result:'', Num result,
                        Str '' and err:'', Err err]]\<rparr>)"
    by (simp add: connectToService_cases [OF ex] ex)
  have outcome: "fst (connectToService srv service cmd w) =
       (if fst (snd (Exec srv (Project_Name (project w))
                   \<lparr>RunOptions_Service = service, RunOptions_Command = [cmd],
                      RunOptions_WorkingDir = ''/bin'', RunOptions_Tty = True,
                      RunOptions_Environment = []\<rparr> (backend w))) \<noteq> None
        then Exit 1 else Return ())"
    by (simp add: connectToService_cases [OF ex] ex)
  have recorded:
    "backend (snd (connectToService (recordingBackend (\<lambda>p. p)) ''web'' ''cd / && ls''
                      \<lparr>backend = [], project = webProject, trace = []\<rparr>)) =
       [srv_Exec ''testproject''
          \<lparr>RunOptions_Service = ''web'', RunOptions_Command = [''cd / && ls''],
             RunOptions_WorkingDir = ''/bin'', RunOptions_Tty = True,
             RunOptions_Environment = []\<rparr>]"
    by (simp add: connectToService_def recordingBackend_def emit_def webProject_def Let_def)
  from sent after outcome recorded show ?thesis by blast
qed




end
